theory Spec2Isabelle
  imports Main
begin

section \<open>Data model of \<open>frontend/src/App.js\<close>\<close>

text \<open>
  The component \<open>App\<close> keeps its data in React state cells. The model collects the
  cells that the students list, its filters, its pagination and the creation dialogs
  read and write into one record; a state setter is a record update.

  JavaScript numbers are modelled as mathematical integers: \<open>skip\<close>, \<open>limit\<close> and
  the total count are integer valued and all arithmetic on them (\<open>+\<close>, \<open>-\<close>,
  \<open>Math.max\<close>, \<open>Math.min\<close>, comparison) is exact for magnitudes below \<open>2^53\<close>.
  Entity records returned by the backend are opaque to the component and are kept as
  field/value lists.
\<close>

datatype view = Dashboard | Students | Teachers | Courses

type_synonym entity = "(string \<times> string) list"

record pagination =
  skip :: int
  limit :: int

record app_state =
  activeView :: view
  students :: "entity list"
  loading :: bool
  searchTerm :: string
  filterGrade :: string
  filterStatus :: string
  showAddStudent :: bool
  showAddTeacher :: bool
  showAddCourse :: bool
  pagination :: pagination
  totalStudents :: int

text \<open>The initial values given to \<open>useState\<close> (lines 18 to 32).\<close>

definition initial_state :: app_state where
  "initial_state =
     \<lparr> activeView = Dashboard, students = [], loading = False,
       searchTerm = [], filterGrade = [], filterStatus = [],
       showAddStudent = False, showAddTeacher = False, showAddCourse = False,
       pagination = \<lparr> skip = 0, limit = 20 \<rparr>, totalStudents = 0 \<rparr>"

subsection \<open>Form buffers of the three creation dialogs\<close>

text \<open>
  The teacher form has fields \<open>first_name\<close>, \<open>last_name\<close>, \<open>email\<close> and \<open>phone\<close>
  like the student form; its selectors carry the prefix \<open>teacher_\<close> to keep the two
  records apart.
\<close>

record student_form =
  student_id :: string
  first_name :: string
  last_name :: string
  email :: string
  phone :: string
  date_of_birth :: string
  gender :: string
  grade_level :: string
  address :: string
  parent_name :: string
  parent_email :: string
  parent_phone :: string

record teacher_form =
  teacher_id :: string
  teacher_first_name :: string
  teacher_last_name :: string
  teacher_email :: string
  teacher_phone :: string
  subject_specialization :: string

record course_form =
  course_code :: string
  course_name :: string
  description :: string
  credit_hours :: string
  grade_levels :: "string list"

text \<open>
  What \<open>AddCourseModal.handleSubmit\<close> sends: the buffer with \<open>credit_hours\<close> replaced by
  the result of \<open>parseInt\<close> (a number or \<open>NaN\<close>) or by \<open>null\<close>.
\<close>

datatype credit = CreditNull | CreditNaN | CreditInt int

record course_data =
  data_course_code :: string
  data_course_name :: string
  data_description :: string
  data_credit_hours :: credit
  data_grade_levels :: "string list"

definition student_form_default :: student_form where
  "student_form_default =
     \<lparr> student_id = [], first_name = [], last_name = [], email = [], phone = [],
       date_of_birth = [], gender = ''male'', grade_level = ''Grade 1'', address = [],
       parent_name = [], parent_email = [], parent_phone = [] \<rparr>"

definition teacher_form_default :: teacher_form where
  "teacher_form_default =
     \<lparr> teacher_id = [], teacher_first_name = [], teacher_last_name = [],
       teacher_email = [], teacher_phone = [], subject_specialization = [] \<rparr>"

definition course_form_default :: course_form where
  "course_form_default =
     \<lparr> course_code = [], course_name = [], description = [], credit_hours = [],
       grade_levels = [] \<rparr>"

subsection \<open>Requests, failures and observable effects\<close>

text \<open>
  The query string built with \<open>URLSearchParams\<close> is an ordered list of key/value pairs
  (kept structured here, before percent-encoding). A request names the endpoint, with
  the parameters, body or id it carries.
\<close>

type_synonym params = "(string \<times> string) list"

datatype request =
    GetDashboardStats
  | GetStudents params
  | GetStudentsCount params
  | GetTeachers
  | GetCourses
  | PostStudent student_form
  | PostTeacher teacher_form
  | PostCourse course_data
  | DeleteStudent string

text \<open>
  A rejected axios call carries an error object. \<open>detail\<close> is the value of
  \<open>error.response?.data?.detail\<close> when that is a string (\<open>None\<close> when the chain yields
  \<open>undefined\<close> or \<open>null\<close>), \<open>message\<close> is \<open>error.message\<close>.
\<close>

record axios_error =
  detail :: "string option"
  message :: string

datatype effect =
    Request request
  | ConsoleError string axios_error
  | Alert string

datatype 'a outcome = Fulfilled 'a | Rejected axios_error

section \<open>The list query: filters and pagination\<close>

definition setSearchTerm :: "string \<Rightarrow> app_state \<Rightarrow> app_state" where
  "setSearchTerm v s = s\<lparr>searchTerm := v\<rparr>"

definition setFilterGrade :: "string \<Rightarrow> app_state \<Rightarrow> app_state" where
  "setFilterGrade v s = s\<lparr>filterGrade := v\<rparr>"

definition setFilterStatus :: "string \<Rightarrow> app_state \<Rightarrow> app_state" where
  "setFilterStatus v s = s\<lparr>filterStatus := v\<rparr>"

definition setPagination :: "pagination \<Rightarrow> app_state \<Rightarrow> app_state" where
  "setPagination p s = s\<lparr>pagination := p\<rparr>"

text \<open>Lines 150 to 163.\<close>

definition resetFilters :: "app_state \<Rightarrow> app_state" where
  "resetFilters s =
     setPagination \<lparr> skip = 0, limit = 20 \<rparr>
       (setFilterStatus [] (setFilterGrade [] (setSearchTerm [] s)))"

definition nextPage :: "app_state \<Rightarrow> app_state" where
  "nextPage s =
     (let prev = pagination s in setPagination (prev\<lparr>skip := skip prev + limit prev\<rparr>) s)"

definition prevPage :: "app_state \<Rightarrow> app_state" where
  "prevPage s =
     (let prev = pagination s
      in setPagination (prev\<lparr>skip := max 0 (skip prev - limit prev)\<rparr>) s)"

subsection \<open>Decimal rendering of numbers\<close>

text \<open>\<open>Number.prototype.toString\<close> on an integer: decimal digits, a minus sign first
  when negative.\<close>

definition digit_char :: "nat \<Rightarrow> char" where
  "digit_char d = ''0123456789'' ! (d mod 10)"

function nat_toString :: "nat \<Rightarrow> string" where
  "nat_toString n =
     (if n < 10 then [digit_char n] else nat_toString (n div 10) @ [digit_char (n mod 10)])"
  by pat_completeness auto
termination
  by (relation "measure id") auto

declare nat_toString.simps [simp del]

definition toString :: "int \<Rightarrow> string" where
  "toString i = (if i < 0 then CHR ''-'' # nat_toString (nat (- i)) else nat_toString (nat i))"

subsection \<open>The query parameters of \<open>loadStudents\<close>\<close>

text \<open>
  Lines 51 to 58: \<open>skip\<close> and \<open>limit\<close> always, then each filter only when its string is
  truthy, that is, not the empty string.
\<close>

definition loadStudents_params :: "app_state \<Rightarrow> params" where
  "loadStudents_params s =
     [(''skip'', toString (skip (pagination s))),
      (''limit'', toString (limit (pagination s)))]
     @ (if searchTerm s \<noteq> [] then [(''search'', searchTerm s)] else [])
     @ (if filterGrade s \<noteq> [] then [(''grade_level'', filterGrade s)] else [])
     @ (if filterStatus s \<noteq> [] then [(''status'', filterStatus s)] else [])"

subsection \<open>Sequences of operations\<close>

datatype filter_op = SetSearchTerm string | SetFilterGrade string | SetFilterStatus string

datatype query_op = Filter filter_op | ResetFilters | NextPage | PrevPage

fun apply_filter :: "filter_op \<Rightarrow> app_state \<Rightarrow> app_state" where
  "apply_filter (SetSearchTerm v) s = setSearchTerm v s"
| "apply_filter (SetFilterGrade v) s = setFilterGrade v s"
| "apply_filter (SetFilterStatus v) s = setFilterStatus v s"

fun apply_op :: "query_op \<Rightarrow> app_state \<Rightarrow> app_state" where
  "apply_op (Filter f) s = apply_filter f s"
| "apply_op ResetFilters s = resetFilters s"
| "apply_op NextPage s = nextPage s"
| "apply_op PrevPage s = prevPage s"

fun run_filters :: "filter_op list \<Rightarrow> app_state \<Rightarrow> app_state" where
  "run_filters [] s = s"
| "run_filters (f # fs) s = run_filters fs (apply_filter f s)"

fun run_ops :: "query_op list \<Rightarrow> app_state \<Rightarrow> app_state" where
  "run_ops [] s = s"
| "run_ops (x # xs) s = run_ops xs (apply_op x s)"

section \<open>Loaders and the reactive effect\<close>

text \<open>
  An \<open>async\<close> function runs synchronously up to its \<open>await\<close> and resumes when the
  awaited promise settles. Each loader is therefore two functions: what it does when
  called (state updates and the requests sent), and what it does when the awaited call
  settles, given the outcome. A function returns the new state and the effects it
  produced, in order.
\<close>

text \<open>\<open>loadStudents\<close> (lines 48 to 72): both requests carry the same parameters.\<close>

definition loadStudents_call :: "app_state \<Rightarrow> app_state \<times> effect list" where
  "loadStudents_call s =
     (let params = loadStudents_params s
      in (s\<lparr>loading := True\<rparr>,
          [Request (GetStudents params), Request (GetStudentsCount params)]))"

text \<open>
  \<open>Promise.all\<close> is fulfilled with both responses or rejected with the first failure.
  On fulfilment the page and the count are stored; on rejection the error is logged.
  The \<open>finally\<close> block clears \<open>loading\<close> in both cases.
\<close>

definition loadStudents_settle ::
  "(entity list \<times> int) outcome \<Rightarrow> app_state \<Rightarrow> app_state \<times> effect list" where
  "loadStudents_settle r s =
     (case r of
        Fulfilled (studentsData, count) \<Rightarrow>
          (s\<lparr>students := studentsData, totalStudents := count, loading := False\<rparr>, [])
      | Rejected error \<Rightarrow>
          (s\<lparr>loading := False\<rparr>, [ConsoleError ''Error loading students:'' error]))"

text \<open>The other loaders, up to the request they send (lines 35 to 45 and 75 to 92).\<close>

definition loadDashboardStats_call :: "app_state \<Rightarrow> app_state \<times> effect list" where
  "loadDashboardStats_call s = (s\<lparr>loading := True\<rparr>, [Request GetDashboardStats])"

definition loadTeachers_call :: "app_state \<Rightarrow> app_state \<times> effect list" where
  "loadTeachers_call s = (s, [Request GetTeachers])"

definition loadCourses_call :: "app_state \<Rightarrow> app_state \<times> effect list" where
  "loadCourses_call s = (s, [Request GetCourses])"

text \<open>The body of the effect (lines 94 to 104).\<close>

definition useEffect :: "app_state \<Rightarrow> app_state \<times> effect list" where
  "useEffect s =
     (case activeView s of
        Dashboard \<Rightarrow> loadDashboardStats_call s
      | Students \<Rightarrow> loadStudents_call s
      | Teachers \<Rightarrow> loadTeachers_call s
      | Courses \<Rightarrow> loadCourses_call s)"

text \<open>
  The \<open>onChange\<close> handlers of the three filter inputs (lines 321, 326 and 336) call the
  setter with the new value and nothing else. The effect lists the filter in its
  dependencies, so it runs again after the render when the value differs from the
  stored one; setting a state cell to the value it holds causes no render.
\<close>

definition onChange_filter :: "filter_op \<Rightarrow> app_state \<Rightarrow> app_state \<times> effect list" where
  "onChange_filter f s =
     (let s' = apply_filter f s in if s' = s then (s, []) else useEffect s')"

text \<open>
  The buttons call \<open>resetFilters\<close>, \<open>nextPage\<close> and \<open>prevPage\<close>. Each stores a new
  pagination object, so the effect always runs again.
\<close>

definition onClick_resetFilters :: "app_state \<Rightarrow> app_state \<times> effect list" where
  "onClick_resetFilters s = useEffect (resetFilters s)"

section \<open>Pagination as rendered\<close>

text \<open>Lines 423 to 443: the text of the window and the \<open>disabled\<close> attributes.\<close>

definition showing_text :: "app_state \<Rightarrow> string" where
  "showing_text s =
     ''Showing '' @ toString (skip (pagination s) + 1)
     @ '' to '' @ toString (min (skip (pagination s) + limit (pagination s)) (totalStudents s))
     @ '' of '' @ toString (totalStudents s) @ '' students''"

definition prev_disabled :: "app_state \<Rightarrow> bool" where
  "prev_disabled s = (skip (pagination s) = 0)"

definition next_disabled :: "app_state \<Rightarrow> bool" where
  "next_disabled s = (skip (pagination s) + limit (pagination s) \<ge> totalStudents s)"

text \<open>A disabled button does not fire its click handler.\<close>

definition onClick_prevPage :: "app_state \<Rightarrow> app_state \<times> effect list" where
  "onClick_prevPage s = (if prev_disabled s then (s, []) else useEffect (prevPage s))"

definition onClick_nextPage :: "app_state \<Rightarrow> app_state \<times> effect list" where
  "onClick_nextPage s = (if next_disabled s then (s, []) else useEffect (nextPage s))"

section \<open>Loads in flight\<close>

text \<open>
  Several calls of \<open>loadStudents\<close> can be waiting for their responses at once. The
  runtime keeps their continuations; the network decides the order in which they
  resume. \<open>pending\<close> lists the loads in flight, each with the number under which it
  was issued and the parameters it sent; \<open>issued\<close> counts the loads issued so far. The
  component itself stores neither: a continuation writes its responses to the state
  whatever has been issued since.
\<close>

record runtime =
  ui :: app_state
  pending :: "(nat \<times> params) list"
  issued :: nat

text \<open>The loads that a handler started: one for each page request among its effects
  (the count request belongs to the same \<open>Promise.all\<close>).\<close>

fun issued_loads :: "effect list \<Rightarrow> params list" where
  "issued_loads [] = []"
| "issued_loads (Request (GetStudents p) # es) = p # issued_loads es"
| "issued_loads (e # es) = issued_loads es"

fun enqueue :: "params list \<Rightarrow> runtime \<Rightarrow> runtime" where
  "enqueue [] rt = rt"
| "enqueue (p # ps) rt =
     enqueue ps (rt\<lparr>pending := pending rt @ [(issued rt, p)], issued := Suc (issued rt)\<rparr>)"

text \<open>Running a handler or the effect: the state is updated, the loads it started are
  in flight.\<close>

definition dispatch :: "(app_state \<Rightarrow> app_state \<times> effect list) \<Rightarrow> runtime \<Rightarrow> runtime" where
  "dispatch h rt = (let (s', es) = h (ui rt) in enqueue (issued_loads es) (rt\<lparr>ui := s'\<rparr>))"

text \<open>The responses of load \<open>k\<close> arrive: its continuation runs on the current state.\<close>

definition settle_load :: "nat \<Rightarrow> (entity list \<times> int) outcome \<Rightarrow> runtime \<Rightarrow> runtime" where
  "settle_load k r rt =
     (if k \<in> set (map fst (pending rt))
      then rt\<lparr> ui := fst (loadStudents_settle r (ui rt)),
                pending := filter (\<lambda>p. fst p \<noteq> k) (pending rt) \<rparr>
      else rt)"

text \<open>A student record as the backend returns it, with every field the table and the
  detail dialog read.\<close>

definition example_student :: entity where
  "example_student =
     [(''id'', ''1''), (''student_id'', ''S1''), (''first_name'', ''Ada''),
      (''last_name'', ''Lovelace''), (''email'', ''ada@example.org''),
      (''phone'', ''555-0100''), (''date_of_birth'', ''2015-12-10''),
      (''gender'', ''female''), (''grade_level'', ''Grade 4''),
      (''address'', ''12 Mill Lane''), (''status'', ''active''),
      (''parent_name'', ''Anne Lovelace''), (''parent_email'', ''anne@example.org''),
      (''parent_phone'', ''555-0101''), (''enrollment_date'', ''2021-09-01''),
      (''created_at'', ''2021-09-01T08:00:00''), (''updated_at'', ''2021-09-01T08:00:00'')]"

text \<open>
  An example run: the students view is activated (load 0), then the search term is
  changed to \<open>zz\<close> while load 0 is in flight (load 1).
\<close>

definition two_loads_in_flight :: runtime where
  "two_loads_in_flight =
     dispatch (onChange_filter (SetSearchTerm ''zz''))
       (dispatch useEffect
          \<lparr> ui = initial_state\<lparr>activeView := Students\<rparr>, pending = [], issued = 0 \<rparr>)"

section \<open>Creating and deleting records\<close>

text \<open>The text appended to the alert: \<open>error.response?.data?.detail || error.message\<close>.
  An empty string is falsy, as \<open>undefined\<close> and \<open>null\<close> are.\<close>

definition detail_or_message :: "axios_error \<Rightarrow> string" where
  "detail_or_message error =
     (case detail error of
        Some d \<Rightarrow> if d \<noteq> [] then d else message error
      | None \<Rightarrow> message error)"

text \<open>
  \<open>handleAddStudent\<close>, \<open>handleAddTeacher\<close>, \<open>handleAddCourse\<close> (lines 106 to 137). The
  first argument is the outcome of the awaited \<open>axios.post\<close>. The whole body is inside
  \<open>try\<close>, so a rejection always ends in the \<open>catch\<close> block and the handler returns
  normally. A handler is taken as one step: the state it resumes on is the state it was
  called on.
\<close>

definition handleAddStudent ::
  "unit outcome \<Rightarrow> student_form \<Rightarrow> app_state \<Rightarrow> app_state \<times> effect list" where
  "handleAddStudent r studentData s =
     (case r of
        Fulfilled _ \<Rightarrow>
          (let (s', es) = loadStudents_call (s\<lparr>showAddStudent := False\<rparr>)
           in (s', Request (PostStudent studentData) # es))
      | Rejected error \<Rightarrow>
          (s, [Request (PostStudent studentData),
               ConsoleError ''Error adding student:'' error,
               Alert (''Error adding student: '' @ detail_or_message error)]))"

definition handleAddTeacher ::
  "unit outcome \<Rightarrow> teacher_form \<Rightarrow> app_state \<Rightarrow> app_state \<times> effect list" where
  "handleAddTeacher r teacherData s =
     (case r of
        Fulfilled _ \<Rightarrow>
          (let (s', es) = loadTeachers_call (s\<lparr>showAddTeacher := False\<rparr>)
           in (s', Request (PostTeacher teacherData) # es))
      | Rejected error \<Rightarrow>
          (s, [Request (PostTeacher teacherData),
               ConsoleError ''Error adding teacher:'' error,
               Alert (''Error adding teacher: '' @ detail_or_message error)]))"

definition handleAddCourse ::
  "unit outcome \<Rightarrow> course_data \<Rightarrow> app_state \<Rightarrow> app_state \<times> effect list" where
  "handleAddCourse r courseData s =
     (case r of
        Fulfilled _ \<Rightarrow>
          (let (s', es) = loadCourses_call (s\<lparr>showAddCourse := False\<rparr>)
           in (s', Request (PostCourse courseData) # es))
      | Rejected error \<Rightarrow>
          (s, [Request (PostCourse courseData),
               ConsoleError ''Error adding course:'' error,
               Alert (''Error adding course: '' @ detail_or_message error)]))"

text \<open>
  \<open>handleDeleteStudent\<close> (lines 139 to 148). \<open>confirmed\<close> is the answer to
  \<open>window.confirm\<close>; the request is sent only after a positive answer.
\<close>

definition handleDeleteStudent ::
  "bool \<Rightarrow> unit outcome \<Rightarrow> string \<Rightarrow> app_state \<Rightarrow> app_state \<times> effect list" where
  "handleDeleteStudent confirmed r studentId s =
     (if confirmed then
        (case r of
           Fulfilled _ \<Rightarrow>
             (let (s', es) = loadStudents_call s
              in (s', Request (DeleteStudent studentId) # es))
         | Rejected error \<Rightarrow>
             (s, [Request (DeleteStudent studentId),
                  ConsoleError ''Error deleting student:'' error]))
      else (s, []))"

section \<open>The creation dialogs\<close>

text \<open>
  Each dialog component owns its buffer \<open>formData\<close>; whether it is shown is the flag of
  \<open>App\<close> passed as \<open>isOpen\<close>. \<open>handleSubmit\<close> calls \<open>onSubmit\<close>, which is the handler of
  \<open>App\<close> above, without awaiting it, and then stores the default record in the buffer.
  The model pairs the buffer with the state of \<open>App\<close>.
\<close>

definition AddStudentModal_handleSubmit ::
  "unit outcome \<Rightarrow> student_form \<times> app_state \<Rightarrow> (student_form \<times> app_state) \<times> effect list" where
  "AddStudentModal_handleSubmit r fs =
     (let (formData, s) = fs;
          (s', es) = handleAddStudent r formData s
      in ((student_form_default, s'), es))"

definition AddTeacherModal_handleSubmit ::
  "unit outcome \<Rightarrow> teacher_form \<times> app_state \<Rightarrow> (teacher_form \<times> app_state) \<times> effect list" where
  "AddTeacherModal_handleSubmit r fs =
     (let (formData, s) = fs;
          (s', es) = handleAddTeacher r formData s
      in ((teacher_form_default, s'), es))"

subsection \<open>\<open>parseInt\<close>\<close>

text \<open>
  \<open>parseInt\<close> with one argument: leading white space (here the ASCII white space
  characters) is skipped, a sign is read, a prefix \<open>0x\<close> or \<open>0X\<close> selects base 16, and
  the longest run of digits of the base is read; without a digit the result is \<open>NaN\<close>.
\<close>

definition is_space :: "char \<Rightarrow> bool" where
  "is_space c = (c \<in> set [CHR '' '', CHR 0x09, CHR 0x0A, CHR 0x0B, CHR 0x0C, CHR 0x0D])"

definition is_digit :: "char \<Rightarrow> bool" where
  "is_digit c = (c \<in> set ''0123456789'')"

definition is_hex_digit :: "char \<Rightarrow> bool" where
  "is_hex_digit c = (c \<in> set ''0123456789abcdefABCDEF'')"

definition digit_value :: "char \<Rightarrow> int" where
  "digit_value c =
     (if is_digit c then of_char c - 48
      else if c \<in> set ''abcdef'' then of_char c - 87
      else of_char c - 55)"

definition read_digits :: "int \<Rightarrow> string \<Rightarrow> int" where
  "read_digits radix ds = foldl (\<lambda>a c. radix * a + digit_value c) 0 ds"

definition parseInt :: "string \<Rightarrow> credit" where
  "parseInt str =
     (let t = dropWhile is_space str;
          neg = (t \<noteq> [] \<and> hd t = CHR ''-'');
          u = (if t \<noteq> [] \<and> (hd t = CHR ''-'' \<or> hd t = CHR ''+'') then tl t else t);
          hex = (take 2 u = ''0x'' \<or> take 2 u = ''0X'');
          ds = (if hex then takeWhile is_hex_digit (drop 2 u) else takeWhile is_digit u);
          n = read_digits (if hex then 16 else 10) ds
      in if ds = [] then CreditNaN else CreditInt (if neg then - n else n))"

definition AddCourseModal_handleSubmit ::
  "unit outcome \<Rightarrow> course_form \<times> app_state \<Rightarrow> (course_form \<times> app_state) \<times> effect list" where
  "AddCourseModal_handleSubmit r fs =
     (let (formData, s) = fs;
          submitData =
            \<lparr> data_course_code = course_code formData,
              data_course_name = course_name formData,
              data_description = description formData,
              data_credit_hours =
                (if credit_hours formData \<noteq> [] then parseInt (credit_hours formData)
                 else CreditNull),
              data_grade_levels = grade_levels formData \<rparr>;
          (s', es) = handleAddCourse r submitData s
      in ((course_form_default, s'), es))"

text \<open>
  A student form as it can be submitted: the four inputs marked \<open>required\<close> (student
  id, first name, last name, date of birth) are filled in.
\<close>

definition example_student_form :: student_form where
  "example_student_form =
     student_form_default
       \<lparr> student_id := ''S1'', first_name := ''Ada'', last_name := ''Lovelace'',
         date_of_birth := ''2015-12-10'' \<rparr>"

text \<open>\<open>handleGradeLevelChange\<close> (lines 946 to 951).\<close>

definition handleGradeLevelChange :: "string \<Rightarrow> course_form \<Rightarrow> course_form" where
  "handleGradeLevelChange grade formData =
     (let newGrades =
            (if grade \<in> set (grade_levels formData)
             then filter (\<lambda>g. g \<noteq> grade) (grade_levels formData)
             else grade_levels formData @ [grade])
      in formData\<lparr>grade_levels := newGrades\<rparr>)"

text \<open>The invariant of the pagination window under the operations of the list query.\<close>

definition page_inv :: "app_state \<Rightarrow> bool" where
  "page_inv s = (0 \<le> skip (pagination s) \<and> limit (pagination s) = 20)"

section \<open>Basic facts\<close>

lemmas setter_defs = setSearchTerm_def setFilterGrade_def setFilterStatus_def setPagination_def

lemmas toString_eval = toString_def nat_toString.simps digit_char_def

lemma nat_toString_not_Nil: "nat_toString n \<noteq> []"
  by (subst nat_toString.simps) simp

lemma toString_not_Nil: "toString i \<noteq> []"
  by (simp add: toString_def nat_toString_not_Nil)

lemma apply_filter_pagination: "pagination (apply_filter f s) = pagination s"
  by (cases f) (simp_all add: setter_defs)

lemma apply_filter_activeView: "activeView (apply_filter f s) = activeView s"
  by (cases f) (simp_all add: setter_defs)

lemma useEffect_pagination: "pagination (fst (useEffect s)) = pagination s"
  by (cases "activeView s")
     (simp_all add: useEffect_def loadStudents_call_def loadDashboardStats_call_def
        loadTeachers_call_def loadCourses_call_def Let_def)

lemma apply_op_inv: "page_inv s \<Longrightarrow> page_inv (apply_op x s)"
  by (cases x)
     (simp_all add: page_inv_def apply_filter_pagination resetFilters_def nextPage_def
        prevPage_def setter_defs Let_def)

lemma run_ops_inv: "page_inv s \<Longrightarrow> page_inv (run_ops xs s)"
  by (induction xs arbitrary: s) (simp_all add: apply_op_inv)

lemma initial_inv: "page_inv initial_state"
  by (simp add: page_inv_def initial_state_def)

lemma two_loads_in_flight_eq:
  "two_loads_in_flight =
     \<lparr> ui = initial_state\<lparr>activeView := Students, loading := True, searchTerm := ''zz''\<rparr>,
       pending = [(0, [(''skip'', ''0''), (''limit'', ''20'')]),
                  (1, [(''skip'', ''0''), (''limit'', ''20''), (''search'', ''zz'')])],
       issued = 2 \<rparr>"
  by (simp add: two_loads_in_flight_def dispatch_def onChange_filter_def useEffect_def
      loadStudents_call_def loadStudents_params_def initial_state_def setter_defs
      toString_eval Let_def)

lemma settle_load_pending:
  "j \<in> set (map fst (pending rt)) \<Longrightarrow> i \<noteq> j \<Longrightarrow>
   j \<in> set (map fst (pending (settle_load i r rt)))"
  by (auto simp: settle_load_def)

lemma filter_snoc_self:
  "(filter (\<lambda>x. x \<noteq> g) xs @ [g] = xs) = (xs \<noteq> [] \<and> last xs = g \<and> g \<notin> set (butlast xs))"
proof (cases xs rule: rev_cases)
  case Nil
  then show ?thesis by simp
next
  case (snoc ys y)
  then show ?thesis by (auto simp: filter_id_conv)
qed

section \<open>Filter changes and pagination\<close>

text \<open>
  Claim C1, as the code has it. A change of the search term, the grade filter or the
  status filter leaves the pagination as it was, \<open>skip\<close> as well as \<open>limit\<close>. When the
  students view is active and the value really changes, the two requests sent carry the
  new filters with the \<open>skip\<close> and \<open>limit\<close> in effect before the change.
\<close>

theorem filter_change_keeps_pagination:
  "pagination (fst (onChange_filter f s)) = pagination s
   \<and> (activeView s = Students \<and> apply_filter f s \<noteq> s \<longrightarrow>
        snd (onChange_filter f s) =
          [Request (GetStudents (loadStudents_params (apply_filter f s))),
           Request (GetStudentsCount (loadStudents_params (apply_filter f s)))]
        \<and> take 2 (loadStudents_params (apply_filter f s)) =
          [(''skip'', toString (skip (pagination s))),
           (''limit'', toString (limit (pagination s)))])"
proof -
  have a: "pagination (fst (onChange_filter f s)) = pagination s"
    by (simp add: onChange_filter_def Let_def useEffect_pagination apply_filter_pagination)
  have b: "take 2 (loadStudents_params (apply_filter f s)) =
          [(''skip'', toString (skip (pagination s))),
           (''limit'', toString (limit (pagination s)))]"
    by (simp add: loadStudents_params_def apply_filter_pagination)
  have c: "activeView s = Students \<Longrightarrow> apply_filter f s \<noteq> s \<Longrightarrow>
        snd (onChange_filter f s) =
          [Request (GetStudents (loadStudents_params (apply_filter f s))),
           Request (GetStudentsCount (loadStudents_params (apply_filter f s)))]"
    by (simp add: onChange_filter_def Let_def useEffect_def apply_filter_activeView
        loadStudents_call_def)
  from a b c show ?thesis by blast
qed

text \<open>On the second page of the students view, typing \<open>a\<close> into the search box.\<close>

theorem filter_change_keeps_pagination_witness:
  "activeView (nextPage (initial_state\<lparr>activeView := Students\<rparr>)) = Students
   \<and> apply_filter (SetSearchTerm ''a'') (nextPage (initial_state\<lparr>activeView := Students\<rparr>))
       \<noteq> nextPage (initial_state\<lparr>activeView := Students\<rparr>)
   \<and> pagination (fst (onChange_filter (SetSearchTerm ''a'')
        (nextPage (initial_state\<lparr>activeView := Students\<rparr>)))) = \<lparr>skip = 20, limit = 20\<rparr>
   \<and> take 2 (loadStudents_params (apply_filter (SetSearchTerm ''a'')
        (nextPage (initial_state\<lparr>activeView := Students\<rparr>))))
       = [(''skip'', ''20''), (''limit'', ''20'')]"
proof -
  have h: "activeView (nextPage (initial_state\<lparr>activeView := Students\<rparr>)) = Students
     \<and> apply_filter (SetSearchTerm ''a'') (nextPage (initial_state\<lparr>activeView := Students\<rparr>))
       \<noteq> nextPage (initial_state\<lparr>activeView := Students\<rparr>)"
    by (simp add: nextPage_def initial_state_def setter_defs Let_def)
  have p: "pagination (nextPage (initial_state\<lparr>activeView := Students\<rparr>))
       = \<lparr>skip = 20, limit = 20\<rparr>"
    by (simp add: nextPage_def initial_state_def setter_defs Let_def)
  have t: "toString 20 = ''20''"
    by (simp add: toString_eval)
  from h p t
    filter_change_keeps_pagination
      [of "SetSearchTerm ''a''" "nextPage (initial_state\<lparr>activeView := Students\<rparr>)"]
  show ?thesis by simp
qed

text \<open>
  The claim as worded (\<open>skip\<close> reset to 0 by a filter change) fails on the second page:
  after the change \<open>skip\<close> is still 20 and the requests sent ask for \<open>skip=20\<close>.
\<close>

theorem filter_change_skip_not_reset:
  "skip (pagination (fst (onChange_filter (SetSearchTerm ''a'')
      (nextPage (initial_state\<lparr>activeView := Students\<rparr>))))) \<noteq> 0
   \<and> snd (onChange_filter (SetSearchTerm ''a'')
        (nextPage (initial_state\<lparr>activeView := Students\<rparr>)))
     = [Request (GetStudents [(''skip'', ''20''), (''limit'', ''20''), (''search'', ''a'')]),
        Request (GetStudentsCount
          [(''skip'', ''20''), (''limit'', ''20''), (''search'', ''a'')])]"
  by (simp add: onChange_filter_def nextPage_def initial_state_def setter_defs useEffect_def
      loadStudents_call_def loadStudents_params_def toString_eval Let_def)

section \<open>Two loads in flight\<close>

text \<open>
  Claim C2, as the code has it. When two loads of the students list are in flight, the
  list and the count shown after both have settled are those of the load that settled
  last when that load is fulfilled, whichever of the two was issued first; a load that
  is rejected writes neither, so when the load that settles last is rejected the data
  of the other, fulfilled load stays.
\<close>

theorem last_settled_load_wins:
  assumes "i \<in> set (map fst (pending rt))" and "j \<in> set (map fst (pending rt))"
    and "i \<noteq> j"
  shows "students (ui (settle_load j (Fulfilled (sj, cj)) (settle_load i ri rt))) = sj
       \<and> totalStudents (ui (settle_load j (Fulfilled (sj, cj)) (settle_load i ri rt))) = cj
       \<and> students (ui (settle_load j (Rejected e) (settle_load i (Fulfilled (si, ci)) rt))) = si
       \<and> totalStudents (ui (settle_load j (Rejected e) (settle_load i (Fulfilled (si, ci)) rt)))
           = ci"
proof -
  have pj: "j \<in> set (map fst (pending (settle_load i r rt)))" for r
    using assms(2,3) by (rule settle_load_pending)
  have a: "students (ui (settle_load j (Fulfilled (sj, cj)) (settle_load i ri rt))) = sj
       \<and> totalStudents (ui (settle_load j (Fulfilled (sj, cj)) (settle_load i ri rt))) = cj"
    using pj [of ri] by (simp add: settle_load_def [of j] loadStudents_settle_def)
  have b: "students (ui (settle_load j (Rejected e) (settle_load i (Fulfilled (si, ci)) rt))) = si
       \<and> totalStudents (ui (settle_load j (Rejected e) (settle_load i (Fulfilled (si, ci)) rt)))
           = ci"
    using pj [of "Fulfilled (si, ci)"] assms(1)
    by (simp add: settle_load_def loadStudents_settle_def)
  from a b show ?thesis by simp
qed

text \<open>Load 1 settles first, load 0 (issued first) settles last and is what is shown.\<close>

theorem last_settled_load_wins_witness:
  "(1::nat) \<in> set (map fst (pending two_loads_in_flight))
   \<and> (0::nat) \<in> set (map fst (pending two_loads_in_flight))
   \<and> students (ui (settle_load 0 (Fulfilled ([example_student], 1))
        (settle_load 1 (Fulfilled ([], 0)) two_loads_in_flight))) = [example_student]
   \<and> totalStudents (ui (settle_load 0 (Fulfilled ([example_student], 1))
        (settle_load 1 (Fulfilled ([], 0)) two_loads_in_flight))) = 1"
proof -
  have h1: "(1::nat) \<in> set (map fst (pending two_loads_in_flight))"
    by (simp add: two_loads_in_flight_eq)
  have h0: "(0::nat) \<in> set (map fst (pending two_loads_in_flight))"
    by (simp add: two_loads_in_flight_eq)
  have ne: "(1::nat) \<noteq> 0" by simp
  from h1 h0
    last_settled_load_wins [OF h1 h0 ne, of "[example_student]" 1 "Fulfilled ([], 0)"]
  show ?thesis by simp
qed

text \<open>
  The claim as worded fails in the example run. Load 0 was sent without a search term,
  load 1 after the search term became \<open>zz\<close>. The responses of load 1 (no rows, count 0)
  arrive first, those of load 0 (one row, count 1) last: with nothing in flight any
  more, the state shows the row and the count of load 0, not those of the most
  recently issued load.
\<close>

theorem stale_load_overwrites:
  "pending (settle_load 0 (Fulfilled ([example_student], 1))
       (settle_load 1 (Fulfilled ([], 0)) two_loads_in_flight)) = []
   \<and> searchTerm (ui (settle_load 0 (Fulfilled ([example_student], 1))
       (settle_load 1 (Fulfilled ([], 0)) two_loads_in_flight))) = ''zz''
   \<and> students (ui (settle_load 0 (Fulfilled ([example_student], 1))
       (settle_load 1 (Fulfilled ([], 0)) two_loads_in_flight))) = [example_student]
   \<and> totalStudents (ui (settle_load 0 (Fulfilled ([example_student], 1))
       (settle_load 1 (Fulfilled ([], 0)) two_loads_in_flight))) = 1
   \<and> students (ui (settle_load 0 (Fulfilled ([example_student], 1))
       (settle_load 1 (Fulfilled ([], 0)) two_loads_in_flight))) \<noteq> []
   \<and> totalStudents (ui (settle_load 0 (Fulfilled ([example_student], 1))
       (settle_load 1 (Fulfilled ([], 0)) two_loads_in_flight))) \<noteq> 0"
  by (simp add: two_loads_in_flight_eq settle_load_def loadStudents_settle_def
      initial_state_def)

section \<open>Submitting a creation form\<close>

text \<open>
  Claim C3, as the code has it. Submitting any of the three creation forms puts the
  default record into the buffer at once, whatever the outcome of the create call.
  When the call fails the flag that shows the dialog is left as it was and an alert
  with the error text is raised; when the call succeeds the flag is cleared, so the
  dialog closes.
\<close>

theorem submit_resets_buffer:
  "fst (fst (AddStudentModal_handleSubmit r (sf, s))) = student_form_default
   \<and> fst (fst (AddTeacherModal_handleSubmit r (tf, s))) = teacher_form_default
   \<and> fst (fst (AddCourseModal_handleSubmit r (cf, s))) = course_form_default
   \<and> showAddStudent (snd (fst (AddStudentModal_handleSubmit (Rejected e) (sf, s))))
       = showAddStudent s
   \<and> showAddTeacher (snd (fst (AddTeacherModal_handleSubmit (Rejected e) (tf, s))))
       = showAddTeacher s
   \<and> showAddCourse (snd (fst (AddCourseModal_handleSubmit (Rejected e) (cf, s))))
       = showAddCourse s
   \<and> Alert (''Error adding student: '' @ detail_or_message e)
        \<in> set (snd (AddStudentModal_handleSubmit (Rejected e) (sf, s)))
   \<and> Alert (''Error adding teacher: '' @ detail_or_message e)
        \<in> set (snd (AddTeacherModal_handleSubmit (Rejected e) (tf, s)))
   \<and> Alert (''Error adding course: '' @ detail_or_message e)
        \<in> set (snd (AddCourseModal_handleSubmit (Rejected e) (cf, s)))
   \<and> showAddStudent (snd (fst (AddStudentModal_handleSubmit (Fulfilled u) (sf, s)))) = False
   \<and> showAddTeacher (snd (fst (AddTeacherModal_handleSubmit (Fulfilled u) (tf, s)))) = False
   \<and> showAddCourse (snd (fst (AddCourseModal_handleSubmit (Fulfilled u) (cf, s)))) = False"
proof -
  have st: "fst (fst (AddStudentModal_handleSubmit r (sf, s))) = student_form_default"
    by (simp add: AddStudentModal_handleSubmit_def split: prod.splits)
  have te: "fst (fst (AddTeacherModal_handleSubmit r (tf, s))) = teacher_form_default"
    by (simp add: AddTeacherModal_handleSubmit_def split: prod.splits)
  have co: "fst (fst (AddCourseModal_handleSubmit r (cf, s))) = course_form_default"
    by (simp add: AddCourseModal_handleSubmit_def Let_def split: prod.splits)
  have rej:
    "showAddStudent (snd (fst (AddStudentModal_handleSubmit (Rejected e) (sf, s))))
       = showAddStudent s"
    "showAddTeacher (snd (fst (AddTeacherModal_handleSubmit (Rejected e) (tf, s))))
       = showAddTeacher s"
    "showAddCourse (snd (fst (AddCourseModal_handleSubmit (Rejected e) (cf, s))))
       = showAddCourse s"
    by (simp_all add: AddStudentModal_handleSubmit_def AddTeacherModal_handleSubmit_def
        AddCourseModal_handleSubmit_def handleAddStudent_def handleAddTeacher_def
        handleAddCourse_def Let_def)
  have al:
    "Alert (''Error adding student: '' @ detail_or_message e)
        \<in> set (snd (AddStudentModal_handleSubmit (Rejected e) (sf, s)))"
    "Alert (''Error adding teacher: '' @ detail_or_message e)
        \<in> set (snd (AddTeacherModal_handleSubmit (Rejected e) (tf, s)))"
    "Alert (''Error adding course: '' @ detail_or_message e)
        \<in> set (snd (AddCourseModal_handleSubmit (Rejected e) (cf, s)))"
    by (simp_all add: AddStudentModal_handleSubmit_def AddTeacherModal_handleSubmit_def
        AddCourseModal_handleSubmit_def handleAddStudent_def handleAddTeacher_def
        handleAddCourse_def Let_def)
  have ok:
    "showAddStudent (snd (fst (AddStudentModal_handleSubmit (Fulfilled u) (sf, s)))) = False"
    "showAddTeacher (snd (fst (AddTeacherModal_handleSubmit (Fulfilled u) (tf, s)))) = False"
    "showAddCourse (snd (fst (AddCourseModal_handleSubmit (Fulfilled u) (cf, s)))) = False"
    by (simp_all add: AddStudentModal_handleSubmit_def AddTeacherModal_handleSubmit_def
        AddCourseModal_handleSubmit_def handleAddStudent_def handleAddTeacher_def
        handleAddCourse_def loadStudents_call_def loadTeachers_call_def loadCourses_call_def
        Let_def)
  show ?thesis by (intro conjI) (rule st te co rej al ok)+
qed

text \<open>
  The claim as worded (buffer kept on failure) fails: a student form with all required
  fields filled in, submitted from the open dialog and rejected by the backend, is
  back at the default record afterwards, which is not what it held at submission.
\<close>

theorem failed_submit_clears_buffer:
  "fst (fst (AddStudentModal_handleSubmit
       (Rejected \<lparr>detail = Some ''Student ID already exists'',
                  message = ''Request failed with status code 400''\<rparr>)
       (example_student_form,
        initial_state\<lparr>activeView := Students, showAddStudent := True\<rparr>)))
     = student_form_default
   \<and> fst (fst (AddStudentModal_handleSubmit
       (Rejected \<lparr>detail = Some ''Student ID already exists'',
                  message = ''Request failed with status code 400''\<rparr>)
       (example_student_form,
        initial_state\<lparr>activeView := Students, showAddStudent := True\<rparr>)))
     \<noteq> example_student_form"
  by (simp add: AddStudentModal_handleSubmit_def handleAddStudent_def student_form_default_def
      example_student_form_def)

section \<open>Toggling a grade level\<close>

text \<open>
  Claim C4, as the code has it. Toggling the same grade twice leaves every other field
  of the form alone and gives back the original membership. The order comes back when
  the grade was absent (it is appended and removed again); a grade that was selected
  is removed and then appended, so it ends up last, and the list is the original one
  exactly when that grade was already its last element and occurred once.
\<close>

theorem toggle_twice:
  "handleGradeLevelChange g (handleGradeLevelChange g f) =
     f\<lparr>grade_levels :=
         (if g \<in> set (grade_levels f) then filter (\<lambda>x. x \<noteq> g) (grade_levels f) @ [g]
          else grade_levels f)\<rparr>
   \<and> set (grade_levels (handleGradeLevelChange g (handleGradeLevelChange g f)))
       = set (grade_levels f)
   \<and> (grade_levels (handleGradeLevelChange g (handleGradeLevelChange g f)) = grade_levels f)
       = (g \<notin> set (grade_levels f) \<or>
          (grade_levels f \<noteq> [] \<and> last (grade_levels f) = g
           \<and> g \<notin> set (butlast (grade_levels f))))"
proof (cases "g \<in> set (grade_levels f)")
  case True
  then have eq: "grade_levels (handleGradeLevelChange g (handleGradeLevelChange g f))
      = filter (\<lambda>x. x \<noteq> g) (grade_levels f) @ [g]"
    by (simp add: handleGradeLevelChange_def)
  have "handleGradeLevelChange g (handleGradeLevelChange g f) =
      f\<lparr>grade_levels := filter (\<lambda>x. x \<noteq> g) (grade_levels f) @ [g]\<rparr>"
    using True by (simp add: handleGradeLevelChange_def)
  moreover have "set (filter (\<lambda>x. x \<noteq> g) (grade_levels f) @ [g]) = set (grade_levels f)"
    using True by auto
  ultimately show ?thesis
    using True eq by (simp add: filter_snoc_self)
next
  case False
  then have "filter (\<lambda>x. x \<noteq> g) (grade_levels f) = grade_levels f"
    by (auto simp: filter_id_conv)
  with False show ?thesis by (simp add: handleGradeLevelChange_def)
qed

text \<open>With Grade 1 and Grade 2 selected in this order: Grade 3 (absent) and Grade 1
  (selected, not last).\<close>

theorem toggle_twice_witness:
  "''Grade 3'' \<notin> set (grade_levels (course_form_default\<lparr>grade_levels := [''Grade 1'', ''Grade 2'']\<rparr>))
   \<and> handleGradeLevelChange ''Grade 3'' (handleGradeLevelChange ''Grade 3''
        (course_form_default\<lparr>grade_levels := [''Grade 1'', ''Grade 2'']\<rparr>))
       = course_form_default\<lparr>grade_levels := [''Grade 1'', ''Grade 2'']\<rparr>
   \<and> handleGradeLevelChange ''Grade 1'' (handleGradeLevelChange ''Grade 1''
        (course_form_default\<lparr>grade_levels := [''Grade 1'', ''Grade 2'']\<rparr>))
       = course_form_default\<lparr>grade_levels := [''Grade 2'', ''Grade 1'']\<rparr>"
  using
    toggle_twice [of "''Grade 3''" "course_form_default\<lparr>grade_levels := [''Grade 1'', ''Grade 2'']\<rparr>"]
    toggle_twice [of "''Grade 1''" "course_form_default\<lparr>grade_levels := [''Grade 1'', ''Grade 2'']\<rparr>"]
  by (simp add: course_form_default_def)

text \<open>
  The claim as worded (original order restored) fails for the selection made by
  ticking Grade 1 and then Grade 2: toggling Grade 1 twice gives Grade 2, Grade 1.
\<close>

theorem toggle_twice_changes_order:
  "grade_levels (handleGradeLevelChange ''Grade 1'' (handleGradeLevelChange ''Grade 1''
      (handleGradeLevelChange ''Grade 2''
        (handleGradeLevelChange ''Grade 1'' course_form_default))))
   \<noteq> grade_levels (handleGradeLevelChange ''Grade 2''
        (handleGradeLevelChange ''Grade 1'' course_form_default))
  \<and> grade_levels (handleGradeLevelChange ''Grade 1'' (handleGradeLevelChange ''Grade 1''
      (handleGradeLevelChange ''Grade 2''
        (handleGradeLevelChange ''Grade 1'' course_form_default))))
   = [''Grade 2'', ''Grade 1'']"
  by (simp add: handleGradeLevelChange_def course_form_default_def)

section \<open>A create call that the backend rejects\<close>

text \<open>
  Claim C5. When the create-student call is rejected with a detail message (a string
  that is not empty), \<open>handleAddStudent\<close> returns normally, the alert shown is the fixed
  prefix followed by that message verbatim, and the state of the component, with the
  students list, the total count, the filters and the pagination, is the state it was
  called on. The only request sent is the create call itself: no row is inserted and no
  reload is issued.
\<close>

theorem create_failure_alerts_detail:
  "detail e = Some d \<Longrightarrow> d \<noteq> [] \<Longrightarrow>
   handleAddStudent (Rejected e) studentData s =
     (s, [Request (PostStudent studentData),
          ConsoleError ''Error adding student:'' e,
          Alert (''Error adding student: '' @ d)])"
  by (simp add: handleAddStudent_def detail_or_message_def)

theorem create_failure_alerts_detail_witness:
  "detail \<lparr>detail = Some ''Student ID already exists'',
           message = ''Request failed with status code 400''\<rparr>
     = Some ''Student ID already exists''
   \<and> ''Student ID already exists'' \<noteq> []
   \<and> handleAddStudent
        (Rejected \<lparr>detail = Some ''Student ID already exists'',
                   message = ''Request failed with status code 400''\<rparr>)
        (student_form_default\<lparr>student_id := ''S1''\<rparr>)
        (initial_state\<lparr>activeView := Students, showAddStudent := True\<rparr>)
     = (initial_state\<lparr>activeView := Students, showAddStudent := True\<rparr>,
        [Request (PostStudent (student_form_default\<lparr>student_id := ''S1''\<rparr>)),
         ConsoleError ''Error adding student:''
           \<lparr>detail = Some ''Student ID already exists'',
            message = ''Request failed with status code 400''\<rparr>,
         Alert ''Error adding student: Student ID already exists''])"
  using create_failure_alerts_detail
    [of "\<lparr>detail = Some ''Student ID already exists'',
          message = ''Request failed with status code 400''\<rparr>"
        "''Student ID already exists''"
        "student_form_default\<lparr>student_id := ''S1''\<rparr>"
        "initial_state\<lparr>activeView := Students, showAddStudent := True\<rparr>"]
  by simp

section \<open>Query parameters\<close>

text \<open>
  Claim C6. After any sequence of calls of the three filter setters, with any values,
  the parameters built by \<open>loadStudents\<close> contain the keys \<open>skip\<close> and \<open>limit\<close>, and
  contain no \<open>search\<close>, \<open>grade_level\<close> or \<open>status\<close> entry with an empty value; indeed
  no entry at all has an empty value.
\<close>

theorem params_without_empty_filter:
  "''skip'' \<in> set (map fst (loadStudents_params (run_filters fs s)))
   \<and> ''limit'' \<in> set (map fst (loadStudents_params (run_filters fs s)))
   \<and> (''search'', []) \<notin> set (loadStudents_params (run_filters fs s))
   \<and> (''grade_level'', []) \<notin> set (loadStudents_params (run_filters fs s))
   \<and> (''status'', []) \<notin> set (loadStudents_params (run_filters fs s))
   \<and> [] \<notin> set (map snd (loadStudents_params (run_filters fs s)))"
  using toString_not_Nil [of "skip (pagination (run_filters fs s))"]
    toString_not_Nil [of "limit (pagination (run_filters fs s))"]
  by (auto simp: loadStudents_params_def)

text \<open>
  Claim C7. From any state, \<open>resetFilters\<close> clears the three filters and stores the
  pagination \<open>skip = 0\<close>, \<open>limit = 20\<close>, which are the initial values, and changes
  nothing else; the parameters built afterwards are exactly \<open>skip=0\<close> and \<open>limit=20\<close>.
\<close>

theorem resetFilters_restores_initial:
  "resetFilters s = s\<lparr>searchTerm := [], filterGrade := [], filterStatus := [],
                      pagination := \<lparr>skip = 0, limit = 20\<rparr>\<rparr>
   \<and> searchTerm (resetFilters s) = searchTerm initial_state
   \<and> filterGrade (resetFilters s) = filterGrade initial_state
   \<and> filterStatus (resetFilters s) = filterStatus initial_state
   \<and> pagination (resetFilters s) = pagination initial_state
   \<and> loadStudents_params (resetFilters s) = [(''skip'', ''0''), (''limit'', ''20'')]"
  by (simp add: resetFilters_def setter_defs initial_state_def loadStudents_params_def
      toString_eval)

section \<open>The pagination window\<close>

text \<open>
  Claim C8. After any sequence of \<open>nextPage\<close>, \<open>prevPage\<close>, \<open>resetFilters\<close> and filter
  setter calls from the initial state, \<open>skip\<close> is not negative and \<open>limit\<close> is positive;
  and when \<open>skip\<close> is 0 there, \<open>prevPage\<close> leaves it 0.
\<close>

theorem skip_nonneg_limit_pos:
  "0 \<le> skip (pagination (run_ops xs initial_state))
   \<and> 0 < limit (pagination (run_ops xs initial_state))
   \<and> (skip (pagination (run_ops xs initial_state)) = 0 \<longrightarrow>
        skip (pagination (prevPage (run_ops xs initial_state))) = 0)"
proof -
  have "page_inv (run_ops xs initial_state)"
    by (rule run_ops_inv) (rule initial_inv)
  then show ?thesis
    by (simp add: page_inv_def prevPage_def setter_defs Let_def)
qed

theorem skip_nonneg_limit_pos_witness:
  "skip (pagination (run_ops [NextPage, PrevPage] initial_state)) = 0
   \<and> skip (pagination (prevPage (run_ops [NextPage, PrevPage] initial_state))) = 0"
proof -
  have h: "skip (pagination (run_ops [NextPage, PrevPage] initial_state)) = 0"
    by (simp add: nextPage_def prevPage_def setter_defs initial_state_def Let_def)
  with skip_nonneg_limit_pos [of "[NextPage, PrevPage]"] show ?thesis by blast
qed

text \<open>
  Claim C9. What is rendered depends on \<open>skip\<close>, \<open>limit\<close> and the total count only:
  Next is disabled exactly when \<open>skip + limit\<close> reaches the total, Previous exactly when
  \<open>skip\<close> is 0, and the text shows \<open>skip + 1\<close> to \<open>min (skip + limit) total\<close> of the total.
  With a total of 45, two \<open>nextPage\<close> calls from the initial state give \<open>skip = 40\<close>, the
  window 41 to 45 of 45 and Next disabled, so that a click on it does nothing. With a
  response of no rows and count 0 the list is empty and the window reads 1 to 0 of 0.
\<close>

theorem pagination_presentation:
  "next_disabled s = (skip (pagination s) + limit (pagination s) \<ge> totalStudents s)
   \<and> prev_disabled s = (skip (pagination s) = 0)
   \<and> showing_text s =
        ''Showing '' @ toString (skip (pagination s) + 1) @ '' to ''
        @ toString (min (skip (pagination s) + limit (pagination s)) (totalStudents s))
        @ '' of '' @ toString (totalStudents s) @ '' students''
   \<and> pagination (nextPage (nextPage (initial_state\<lparr>totalStudents := 45\<rparr>)))
        = \<lparr>skip = 40, limit = 20\<rparr>
   \<and> showing_text (nextPage (nextPage (initial_state\<lparr>totalStudents := 45\<rparr>)))
        = ''Showing 41 to 45 of 45 students''
   \<and> next_disabled (nextPage (nextPage (initial_state\<lparr>totalStudents := 45\<rparr>)))
   \<and> onClick_nextPage (nextPage (nextPage (initial_state\<lparr>totalStudents := 45\<rparr>)))
        = (nextPage (nextPage (initial_state\<lparr>totalStudents := 45\<rparr>)), [])
   \<and> students (fst (loadStudents_settle (Fulfilled ([], 0)) initial_state)) = []
   \<and> showing_text (fst (loadStudents_settle (Fulfilled ([], 0)) initial_state))
        = ''Showing 1 to 0 of 0 students''"
proof -
  have g: "next_disabled s = (skip (pagination s) + limit (pagination s) \<ge> totalStudents s)"
    "prev_disabled s = (skip (pagination s) = 0)"
    "showing_text s =
        ''Showing '' @ toString (skip (pagination s) + 1) @ '' to ''
        @ toString (min (skip (pagination s) + limit (pagination s)) (totalStudents s))
        @ '' of '' @ toString (totalStudents s) @ '' students''"
    by (simp_all add: next_disabled_def prev_disabled_def showing_text_def)
  have c: "pagination (nextPage (nextPage (initial_state\<lparr>totalStudents := 45\<rparr>)))
        = \<lparr>skip = 40, limit = 20\<rparr>"
    "showing_text (nextPage (nextPage (initial_state\<lparr>totalStudents := 45\<rparr>)))
        = ''Showing 41 to 45 of 45 students''"
    "next_disabled (nextPage (nextPage (initial_state\<lparr>totalStudents := 45\<rparr>)))"
    by (simp_all add: nextPage_def setter_defs Let_def showing_text_def next_disabled_def
        initial_state_def toString_eval)
  have d: "onClick_nextPage (nextPage (nextPage (initial_state\<lparr>totalStudents := 45\<rparr>)))
        = (nextPage (nextPage (initial_state\<lparr>totalStudents := 45\<rparr>)), [])"
    by (simp add: onClick_nextPage_def c(3))
  have z: "students (fst (loadStudents_settle (Fulfilled ([], 0)) initial_state)) = []"
    "showing_text (fst (loadStudents_settle (Fulfilled ([], 0)) initial_state))
        = ''Showing 1 to 0 of 0 students''"
    by (simp_all add: loadStudents_settle_def showing_text_def initial_state_def toString_eval)
  show ?thesis by (intro conjI) (rule g c d z)+
qed

section \<open>A delete call that fails\<close>

text \<open>
  Claim C10. When the delete request fails, the only effects are the request itself
  and one console entry: no alert and no reload, and the state is the state the handler
  was called on. Without confirmation nothing happens at all. The students load (page
  and count request) is sent only after a confirmed delete has succeeded. A failed
  create-student call, in contrast, raises an alert.
\<close>

theorem delete_failure_silent:
  "handleDeleteStudent True (Rejected e) studentId s =
      (s, [Request (DeleteStudent studentId), ConsoleError ''Error deleting student:'' e])
   \<and> handleDeleteStudent False r studentId s = (s, [])
   \<and> handleDeleteStudent True (Fulfilled u) studentId s =
      (s\<lparr>loading := True\<rparr>,
       [Request (DeleteStudent studentId),
        Request (GetStudents (loadStudents_params s)),
        Request (GetStudentsCount (loadStudents_params s))])
   \<and> Alert (''Error adding student: '' @ detail_or_message e)
        \<in> set (snd (handleAddStudent (Rejected e) studentData s))"
  by (simp add: handleDeleteStudent_def handleAddStudent_def loadStudents_call_def Let_def)

end
